theory Spec2Isabelle
  imports Main "HOL-Library.Multiset"
begin

section \<open>Data model\<close>

text \<open>
  The ORM classes (\<open>models.py\<close>) are not part of the sources at hand; the columns are
  the ones the routers, the repository and \<open>test_full_flow.py\<close> read and write, with
  the nullability the specification gives them. A UUID is its 128-bit integer value, a
  \<open>datetime\<close> the number of microseconds since the epoch. A table is the list of its
  rows, in the order in which \<open>.first()\<close> meets them.
\<close>

type_synonym uuid = nat
type_synonym datetime = int

record User =
  u_id :: uuid
  u_user_identifier :: string

record DBSession =
  s_id :: uuid
  s_user_id :: uuid
  s_session_token :: string
  s_expires_at :: datetime

record PracticeSession =
  ps_id :: uuid
  ps_user_id :: "uuid option"
  ps_task_type :: string
  ps_reading_text :: "string option"
  ps_lecture_script :: "string option"
  ps_question :: string
  ps_user_transcript :: "string option"
  ps_overall_score :: "int option"
  ps_delivery_score :: "int option"
  ps_language_use_score :: "int option"
  ps_topic_dev_score :: "int option"
  ps_feedback_json :: "string option"
  ps_created_at :: datetime

record SavedPhrase =
  sp_id :: uuid
  sp_user_id :: uuid
  sp_phrase :: string
  sp_context :: string
  sp_category :: string
  sp_is_mastered :: bool
  sp_created_at :: datetime

record tables =
  users :: "User list"
  sessions :: "DBSession list"
  practice_sessions :: "PracticeSession list"
  saved_phrases :: "SavedPhrase list"

text \<open>
  The SQLAlchemy session \<open>db\<close>: \<open>store\<close> is what is committed (what every other
  request sees), \<open>txn\<close> is the view of the open transaction, the store with the
  changes added since the last commit.
\<close>

record db =
  store :: tables
  txn :: tables

text \<open>
  What a handler raises. \<open>Exception msg\<close> is any exception that is not an
  \<open>HTTPException\<close>, with \<open>str(e) = msg\<close>; \<open>RequestValidationError\<close> is the
  framework's rejection (422) of a query parameter outside its declared range.
\<close>

datatype exc =
  HTTPException nat string
  | Exception string
  | RequestValidationError

text \<open>
  The library functions the handlers call: \<open>uuid.UUID(s)\<close> (\<open>None\<close> when it raises
  \<open>ValueError\<close>), \<open>str\<close> of a UUID and \<open>datetime.isoformat\<close>. They are parameters
  of the model.
\<close>

record stdlib =
  UUID :: "string \<Rightarrow> uuid option"
  str_uuid :: "uuid \<Rightarrow> string"
  isoformat :: "datetime \<Rightarrow> string"

section \<open>database.py\<close>

text \<open>\<open>SessionLocal()\<close>: a new session on the store, with nothing pending.\<close>

definition SessionLocal :: "tables \<Rightarrow> db" where
  "SessionLocal st = \<lparr>store = st, txn = st\<rparr>"

text \<open>
  \<open>get_db\<close>: the handler runs on a session of its own, which is closed on every exit
  path; what is not committed by then is gone, and the store is what remains.
\<close>

definition get_db :: "(db \<Rightarrow> 'r \<times> db) \<Rightarrow> tables \<Rightarrow> 'r \<times> tables" where
  "get_db handler st = (case handler (SessionLocal st) of (r, d) \<Rightarrow> (r, store d))"

text \<open>
  \<open>db.commit()\<close>. The argument is what the store does with the write: \<open>None\<close> when
  it accepts it, \<open>Some msg\<close> when it raises an exception whose text is \<open>msg\<close>; the
  pending changes then stay pending until \<open>db.rollback()\<close>.
\<close>

definition commit :: "string option \<Rightarrow> db \<Rightarrow> (exc + unit) \<times> db" where
  "commit fault d =
     (case fault of
        None \<Rightarrow> (Inr (), d\<lparr>store := txn d\<rparr>)
      | Some msg \<Rightarrow> (Inl (Exception msg), d))"

definition rollback :: "db \<Rightarrow> db" where
  "rollback d = d\<lparr>txn := store d\<rparr>"

definition add_user :: "User \<Rightarrow> db \<Rightarrow> db" where
  "add_user u d = d\<lparr>txn := (txn d)\<lparr>users := users (txn d) @ [u]\<rparr>\<rparr>"

definition add_session :: "DBSession \<Rightarrow> db \<Rightarrow> db" where
  "add_session s d = d\<lparr>txn := (txn d)\<lparr>sessions := sessions (txn d) @ [s]\<rparr>\<rparr>"

definition add_phrase :: "SavedPhrase \<Rightarrow> db \<Rightarrow> db" where
  "add_phrase p d = d\<lparr>txn := (txn d)\<lparr>saved_phrases := saved_phrases (txn d) @ [p]\<rparr>\<rparr>"

text \<open>\<open>db.delete(obj)\<close> removes the row with the object's primary key.\<close>

definition delete_session :: "DBSession \<Rightarrow> db \<Rightarrow> db" where
  "delete_session s d =
     d\<lparr>txn := (txn d)\<lparr>sessions := filter (\<lambda>r. s_id r \<noteq> s_id s) (sessions (txn d))\<rparr>\<rparr>"

definition delete_saved_phrase :: "SavedPhrase \<Rightarrow> db \<Rightarrow> db" where
  "delete_saved_phrase p d =
     d\<lparr>txn := (txn d)\<lparr>saved_phrases :=
       filter (\<lambda>r. sp_id r \<noteq> sp_id p) (saved_phrases (txn d))\<rparr>\<rparr>"

text \<open>
  The flush of \<open>phrase.is_mastered = b\<close>: the column is written in the row with the
  object's primary key.
\<close>

definition set_is_mastered :: "SavedPhrase \<Rightarrow> bool \<Rightarrow> db \<Rightarrow> db" where
  "set_is_mastered p b d =
     d\<lparr>txn := (txn d)\<lparr>saved_phrases :=
       map (\<lambda>r. if sp_id r = sp_id p then r\<lparr>sp_is_mastered := b\<rparr> else r)
         (saved_phrases (txn d))\<rparr>\<rparr>"

section \<open>routers/auth.py\<close>

record SimpleLoginRequest =
  req_user_id :: string

record SimpleLoginResponse =
  resp_session_token :: string
  resp_user_id :: string

record VerifyResponse =
  v_valid :: bool
  v_user_id :: string
  v_user_identifier :: string

text \<open>
  What one login draws from its environment: the primary keys generated for the rows
  it inserts, the token of \<open>generate_session_token()\<close>, the clock, and what the store
  does at each access inside the \<open>try\<close> (\<open>None\<close> when it answers, \<open>Some msg\<close> when
  it raises an exception whose text is \<open>msg\<close>): the query for the user, the commit of
  the user, \<open>db.refresh(user)\<close>, the commit of the session and
  \<open>db.refresh(db_session)\<close>.
\<close>

record login_env =
  new_user_id :: uuid
  new_session_id :: uuid
  token :: string
  utcnow :: datetime
  user_query :: "string option"
  user_commit :: "string option"
  user_refresh :: "string option"
  session_commit :: "string option"
  session_refresh :: "string option"

text \<open>\<open>timedelta(days=n)\<close>, in microseconds.\<close>

definition timedelta_days :: "int \<Rightarrow> int" where
  "timedelta_days n = n * 86400 * 1000000"

text \<open>
  \<open>str(e)\<close>. For an \<open>HTTPException\<close> it is \<open>"{status_code}: {detail}"\<close>, the status
  in decimal; the validation error is raised by the framework before a handler runs,
  so no handler takes its \<open>str\<close>.
\<close>

fun digits :: "nat \<Rightarrow> nat \<Rightarrow> string" where
  "digits 0 n = []"
| "digits (Suc k) n =
     (if n < 10 then [char_of (48 + n)]
      else digits k (n div 10) @ [char_of (48 + n mod 10)])"

definition str_nat :: "nat \<Rightarrow> string" where
  "str_nat n = digits (Suc n) n"

fun str_exc :: "exc \<Rightarrow> string" where
  "str_exc (Exception msg) = msg"
| "str_exc (HTTPException code d) = str_nat code @ '': '' @ d"
| "str_exc RequestValidationError = []"

definition create_or_get_user :: "uuid \<Rightarrow> string option \<Rightarrow> db \<Rightarrow> string \<Rightarrow> (exc + User) \<times> db" where
  "create_or_get_user new_id fault d user_identifier =
     (case find (\<lambda>u. u_user_identifier u = user_identifier) (users (txn d)) of
        Some user \<Rightarrow> (Inr user, d)
      | None \<Rightarrow>
          (case commit fault
                  (add_user \<lparr>u_id = new_id, u_user_identifier = user_identifier\<rparr> d) of
             (Inl e, d') \<Rightarrow> (Inl e, d')
           | (Inr _, d') \<Rightarrow>
               (Inr \<lparr>u_id = new_id, u_user_identifier = user_identifier\<rparr>, d')))"

text \<open>
  The body of the \<open>try\<close> of \<open>simple_login\<close>, with every access to the store a
  point where it can raise. The query of \<open>create_or_get_user\<close> comes first and
  raises before anything is written; its \<open>db.refresh(user)\<close> runs only when the user
  was inserted, after the commit of the insert; \<open>db.refresh(db_session)\<close> runs after
  the commit of the session.
\<close>

definition simple_login_try ::
  "stdlib \<Rightarrow> login_env \<Rightarrow> SimpleLoginRequest \<Rightarrow> db \<Rightarrow> (exc + SimpleLoginResponse) \<times> db" where
  "simple_login_try L env request d =
     (case user_query env of
        Some msg \<Rightarrow> (Inl (Exception msg), d)
      | None \<Rightarrow>
          (case create_or_get_user (new_user_id env) (user_commit env) d (req_user_id request) of
             (Inl e, d1) \<Rightarrow> (Inl e, d1)
           | (Inr user, d1) \<Rightarrow>
               (case (if find (\<lambda>u. u_user_identifier u = req_user_id request) (users (txn d)) = None
                      then user_refresh env else None) of
                  Some msg \<Rightarrow> (Inl (Exception msg), d1)
                | None \<Rightarrow>
                    (case commit (session_commit env)
                            (add_session
                               \<lparr>s_id = new_session_id env, s_user_id = u_id user,
                                s_session_token = token env,
                                s_expires_at = utcnow env + timedelta_days 30\<rparr> d1) of
                       (Inl e, d2) \<Rightarrow> (Inl e, d2)
                     | (Inr _, d2) \<Rightarrow>
                         (case session_refresh env of
                            Some msg \<Rightarrow> (Inl (Exception msg), d2)
                          | None \<Rightarrow>
                              (Inr \<lparr>resp_session_token = token env,
                                    resp_user_id = str_uuid L (u_id user)\<rparr>, d2))))))"

definition simple_login_handler ::
  "stdlib \<Rightarrow> login_env \<Rightarrow> SimpleLoginRequest \<Rightarrow> db \<Rightarrow> (exc + SimpleLoginResponse) \<times> db" where
  "simple_login_handler L env request d =
     (case simple_login_try L env request d of
        (Inl e, d') \<Rightarrow> (Inl (HTTPException 500 (''Login failed: '' @ str_exc e)), rollback d')
      | (Inr r, d') \<Rightarrow> (Inr r, d'))"

definition simple_login ::
  "stdlib \<Rightarrow> login_env \<Rightarrow> SimpleLoginRequest \<Rightarrow> tables \<Rightarrow> (exc + SimpleLoginResponse) \<times> tables" where
  "simple_login L env request = get_db (simple_login_handler L env request)"

text \<open>
  \<open>get_current_user\<close>: \<open>now\<close> is \<open>datetime.utcnow()\<close>, \<open>fault\<close> the outcome of the
  commit of the delete. The result \<open>Inr None\<close> is the function returning \<open>None\<close>.
\<close>

definition get_current_user ::
  "datetime \<Rightarrow> string option \<Rightarrow> string option \<Rightarrow> db \<Rightarrow> (exc + User option) \<times> db" where
  "get_current_user now fault session_token d =
     (case session_token of
        None \<Rightarrow> (Inr None, d)
      | Some tok \<Rightarrow>
          if tok = [] then (Inr None, d)
          else
            (case find (\<lambda>s. s_session_token s = tok) (sessions (txn d)) of
               None \<Rightarrow> (Inr None, d)
             | Some db_session \<Rightarrow>
                 if s_expires_at db_session < now then
                   (case commit fault (delete_session db_session d) of
                      (Inl e, d') \<Rightarrow> (Inl e, d')
                    | (Inr _, d') \<Rightarrow> (Inr None, d'))
                 else
                   (Inr (find (\<lambda>u. u_id u = s_user_id db_session) (users (txn d))), d)))"

definition verify_session_handler ::
  "stdlib \<Rightarrow> datetime \<Rightarrow> string option \<Rightarrow> string \<Rightarrow> db \<Rightarrow> (exc + VerifyResponse) \<times> db" where
  "verify_session_handler L now fault session_token d =
     (case get_current_user now fault (Some session_token) d of
        (Inl e, d') \<Rightarrow> (Inl e, d')
      | (Inr None, d') \<Rightarrow> (Inl (HTTPException 401 ''Invalid or expired session''), d')
      | (Inr (Some user), d') \<Rightarrow>
          (Inr \<lparr>v_valid = True, v_user_id = str_uuid L (u_id user),
                v_user_identifier = u_user_identifier user\<rparr>, d'))"

definition verify_session ::
  "stdlib \<Rightarrow> datetime \<Rightarrow> string option \<Rightarrow> string \<Rightarrow> tables \<Rightarrow> (exc + VerifyResponse) \<times> tables" where
  "verify_session L now fault session_token = get_db (verify_session_handler L now fault session_token)"

definition logout_handler :: "string option \<Rightarrow> string \<Rightarrow> db \<Rightarrow> (exc + string) \<times> db" where
  "logout_handler fault session_token d =
     (case find (\<lambda>s. s_session_token s = session_token) (sessions (txn d)) of
        None \<Rightarrow> (Inr ''Logged out successfully'', d)
      | Some db_session \<Rightarrow>
          (case commit fault (delete_session db_session d) of
             (Inl e, d') \<Rightarrow> (Inl e, d')
           | (Inr _, d') \<Rightarrow> (Inr ''Logged out successfully'', d')))"

definition logout :: "string option \<Rightarrow> string \<Rightarrow> tables \<Rightarrow> (exc + string) \<times> tables" where
  "logout fault session_token = get_db (logout_handler fault session_token)"

section \<open>routers/task1_archive.py\<close>

record Task1QuestionResponse =
  q_id :: string
  q_question :: string
  q_user_transcript :: "string option"
  q_overall_score :: "int option"
  q_created_at :: string

record Task1ArchiveResponse =
  ar_questions :: "Task1QuestionResponse list"
  ar_total :: int

text \<open>The conversion to the response format, the same in both handlers.\<close>

definition to_response :: "stdlib \<Rightarrow> PracticeSession \<Rightarrow> Task1QuestionResponse" where
  "to_response L session =
     \<lparr>q_id = str_uuid L (ps_id session),
      q_question = ps_question session,
      q_user_transcript = ps_user_transcript session,
      q_overall_score = ps_overall_score session,
      q_created_at = isoformat L (ps_created_at session)\<rparr>"

text \<open>
  The query of \<open>get_task1_questions\<close>: the filter on the user and the task type (a
  NULL \<open>user_id\<close> equals no id), ordered by \<open>created_at\<close> descending. Rows with the
  same \<open>created_at\<close> keep their table order.
\<close>

definition task1_query :: "uuid \<Rightarrow> db \<Rightarrow> PracticeSession list" where
  "task1_query uid d =
     sort_key (\<lambda>p. - ps_created_at p)
       (filter (\<lambda>p. ps_user_id p = Some uid \<and> ps_task_type p = ''task1'')
          (practice_sessions (txn d)))"

text \<open>
  The store's integers are 64-bit and signed: an \<open>OFFSET\<close> beyond the largest of them
  is refused, and \<open>query.offset(offset).limit(limit).all()\<close> raises. The text of that
  exception reaches the log only.
\<close>

definition store_int_max :: int where
  "store_int_max = 2 ^ 63 - 1"

text \<open>
  The body of the \<open>try\<close> of \<open>get_task1_questions\<close>. \<open>fault\<close> is the store raising
  on the handler's first query (\<open>Some msg\<close>), or not (\<open>None\<close>). The count is taken
  before the page is fetched.
\<close>

definition get_task1_questions_try ::
  "stdlib \<Rightarrow> string option \<Rightarrow> string \<Rightarrow> int \<Rightarrow> int \<Rightarrow> db \<Rightarrow> (exc + Task1ArchiveResponse) \<times> db" where
  "get_task1_questions_try L fault user_id limit offset d =
     (case fault of
        Some msg \<Rightarrow> (Inl (Exception msg), d)
      | None \<Rightarrow>
          (case find (\<lambda>u. u_user_identifier u = user_id) (users (txn d)) of
             None \<Rightarrow> (Inl (HTTPException 404 ''User not found''), d)
           | Some user \<Rightarrow>
               if store_int_max < offset then (Inl (Exception ''integer out of range''), d)
               else
                 (Inr \<lparr>ar_questions =
                         map (to_response L)
                           (take (nat limit) (drop (nat offset) (task1_query (u_id user) d))),
                       ar_total = int (length (task1_query (u_id user) d))\<rparr>, d)))"

text \<open>
  The handler: the declared ranges of \<open>limit\<close> (\<open>ge=1, le=100\<close>) and \<open>offset\<close>
  (\<open>ge=0\<close>) are checked before the body runs; an \<open>HTTPException\<close> of the body passes
  through, any other exception becomes the fixed 500.
\<close>

definition get_task1_questions_handler ::
  "stdlib \<Rightarrow> string option \<Rightarrow> string \<Rightarrow> int \<Rightarrow> int \<Rightarrow> db \<Rightarrow> (exc + Task1ArchiveResponse) \<times> db" where
  "get_task1_questions_handler L fault user_id limit offset d =
     (if limit < 1 \<or> 100 < limit \<or> offset < 0 then (Inl RequestValidationError, d)
      else
        (case get_task1_questions_try L fault user_id limit offset d of
           (Inl (HTTPException c m), d') \<Rightarrow> (Inl (HTTPException c m), d')
         | (Inl _, d') \<Rightarrow> (Inl (HTTPException 500 ''Failed to fetch Task1 questions''), d')
         | (Inr r, d') \<Rightarrow> (Inr r, d')))"

definition get_task1_questions ::
  "stdlib \<Rightarrow> string option \<Rightarrow> string \<Rightarrow> int \<Rightarrow> int \<Rightarrow> tables \<Rightarrow> (exc + Task1ArchiveResponse) \<times> tables" where
  "get_task1_questions L fault user_id limit offset =
     get_db (get_task1_questions_handler L fault user_id limit offset)"

text \<open>
  The body of the \<open>try\<close> of \<open>get_task1_question\<close>: the format of the id is checked
  first, before the store is touched.
\<close>

definition get_task1_question_try ::
  "stdlib \<Rightarrow> string option \<Rightarrow> string \<Rightarrow> string \<Rightarrow> db \<Rightarrow> (exc + Task1QuestionResponse) \<times> db" where
  "get_task1_question_try L fault question_id user_id d =
     (case UUID L question_id of
        None \<Rightarrow> (Inl (HTTPException 400 ''Invalid question ID format''), d)
      | Some question_uuid \<Rightarrow>
          (case fault of
             Some msg \<Rightarrow> (Inl (Exception msg), d)
           | None \<Rightarrow>
               (case find (\<lambda>u. u_user_identifier u = user_id) (users (txn d)) of
                  None \<Rightarrow> (Inl (HTTPException 404 ''User not found''), d)
                | Some user \<Rightarrow>
                    (case find (\<lambda>p. ps_id p = question_uuid \<and> ps_user_id p = Some (u_id user)
                                    \<and> ps_task_type p = ''task1'')
                            (practice_sessions (txn d)) of
                       None \<Rightarrow> (Inl (HTTPException 404 ''Task1 question not found''), d)
                     | Some session \<Rightarrow> (Inr (to_response L session), d)))))"

definition get_task1_question_handler ::
  "stdlib \<Rightarrow> string option \<Rightarrow> string \<Rightarrow> string \<Rightarrow> db \<Rightarrow> (exc + Task1QuestionResponse) \<times> db" where
  "get_task1_question_handler L fault question_id user_id d =
     (case get_task1_question_try L fault question_id user_id d of
        (Inl (HTTPException c m), d') \<Rightarrow> (Inl (HTTPException c m), d')
      | (Inl _, d') \<Rightarrow> (Inl (HTTPException 500 ''Failed to fetch Task1 question''), d')
      | (Inr r, d') \<Rightarrow> (Inr r, d'))"

definition get_task1_question ::
  "stdlib \<Rightarrow> string option \<Rightarrow> string \<Rightarrow> string \<Rightarrow> tables \<Rightarrow> (exc + Task1QuestionResponse) \<times> tables" where
  "get_task1_question L fault question_id user_id =
     get_db (get_task1_question_handler L fault question_id user_id)"

section \<open>repositories/phrase_repository.py\<close>

text \<open>
  The repository's methods, on the session the repository was built with. \<open>new_id\<close>
  and \<open>created_at\<close> are the column defaults the insert generates, \<open>fault\<close> the outcome
  of the method's commit.
\<close>

definition save_phrase ::
  "uuid \<Rightarrow> datetime \<Rightarrow> string option \<Rightarrow> db \<Rightarrow> uuid \<Rightarrow> string \<Rightarrow> string \<Rightarrow> string
     \<Rightarrow> (exc + SavedPhrase) \<times> db" where
  "save_phrase new_id created_at fault d user_id phrase context category =
     (case commit fault
             (add_phrase
                \<lparr>sp_id = new_id, sp_user_id = user_id, sp_phrase = phrase,
                 sp_context = context, sp_category = category, sp_is_mastered = False,
                 sp_created_at = created_at\<rparr> d) of
        (Inl e, d') \<Rightarrow> (Inl e, d')
      | (Inr _, d') \<Rightarrow>
          (Inr \<lparr>sp_id = new_id, sp_user_id = user_id, sp_phrase = phrase,
                sp_context = context, sp_category = category, sp_is_mastered = False,
                sp_created_at = created_at\<rparr>, d'))"

definition get_phrase :: "db \<Rightarrow> uuid \<Rightarrow> SavedPhrase option" where
  "get_phrase d phrase_id = find (\<lambda>p. sp_id p = phrase_id) (saved_phrases (txn d))"

definition get_user_phrases :: "db \<Rightarrow> uuid \<Rightarrow> SavedPhrase list" where
  "get_user_phrases d user_id =
     sort_key (\<lambda>p. - sp_created_at p)
       (filter (\<lambda>p. sp_user_id p = user_id) (saved_phrases (txn d)))"

definition delete_phrase :: "string option \<Rightarrow> db \<Rightarrow> uuid \<Rightarrow> (exc + bool) \<times> db" where
  "delete_phrase fault d phrase_id =
     (case get_phrase d phrase_id of
        Some phrase \<Rightarrow>
          (case commit fault (delete_saved_phrase phrase d) of
             (Inl e, d') \<Rightarrow> (Inl e, d')
           | (Inr _, d') \<Rightarrow> (Inr True, d'))
      | None \<Rightarrow> (Inr False, d))"

definition update_mastered_status ::
  "string option \<Rightarrow> db \<Rightarrow> uuid \<Rightarrow> bool \<Rightarrow> (exc + SavedPhrase option) \<times> db" where
  "update_mastered_status fault d phrase_id is_mastered =
     (case get_phrase d phrase_id of
        Some phrase \<Rightarrow>
          (case commit fault (set_is_mastered phrase is_mastered d) of
             (Inl e, d') \<Rightarrow> (Inl e, d')
           | (Inr _, d') \<Rightarrow> (Inr (Some (phrase\<lparr>sp_is_mastered := is_mastered\<rparr>)), d'))
      | None \<Rightarrow> (Inr None, d))"

section \<open>Example data\<close>

text \<open>
  Concrete stores, requests and environments, on which the theorems below are
  instantiated. \<open>example_lib\<close> stands for the library: it parses one identifier.
\<close>

definition example_lib :: stdlib where
  "example_lib =
     \<lparr>UUID = (\<lambda>s. if s = ''00000000-0000-0000-0000-000000000009'' then Some 9 else None),
      str_uuid = (\<lambda>u. if u = 9 then ''00000000-0000-0000-0000-000000000009'' else ''other''),
      isoformat = (\<lambda>t. ''1970-01-01T00:00:00'')\<rparr>"

definition alice :: User where
  "alice = \<lparr>u_id = 7, u_user_identifier = ''alice''\<rparr>"

definition empty_store :: tables where
  "empty_store = \<lparr>users = [], sessions = [], practice_sessions = [], saved_phrases = []\<rparr>"

definition alice_session :: DBSession where
  "alice_session = \<lparr>s_id = 1, s_user_id = 7, s_session_token = ''tok'', s_expires_at = 100\<rparr>"

definition session_store :: tables where
  "session_store =
     \<lparr>users = [alice], sessions = [alice_session], practice_sessions = [], saved_phrases = []\<rparr>"

definition orphan_store :: tables where
  "orphan_store =
     \<lparr>users = [], sessions = [alice_session], practice_sessions = [], saved_phrases = []\<rparr>"

definition alice_request :: SimpleLoginRequest where
  "alice_request = \<lparr>req_user_id = ''alice''\<rparr>"

definition session_commit_fails :: login_env where
  "session_commit_fails =
     \<lparr>new_user_id = 7, new_session_id = 1, token = ''tok'', utcnow = 0,
      user_query = None, user_commit = None, user_refresh = None,
      session_commit = Some ''connection lost'', session_refresh = None\<rparr>"

definition user_commit_fails :: login_env where
  "user_commit_fails =
     \<lparr>new_user_id = 7, new_session_id = 1, token = ''tok'', utcnow = 0,
      user_query = None,
      user_commit = Some ''UNIQUE constraint failed: users.user_identifier'',
      user_refresh = None, session_commit = None, session_refresh = None\<rparr>"

definition example_practice :: "uuid \<Rightarrow> uuid option \<Rightarrow> string \<Rightarrow> datetime \<Rightarrow> PracticeSession" where
  "example_practice i u t c =
     \<lparr>ps_id = i, ps_user_id = u, ps_task_type = t, ps_reading_text = None,
      ps_lecture_script = None, ps_question = ''Describe a place.'',
      ps_user_transcript = None, ps_overall_score = None, ps_delivery_score = None,
      ps_language_use_score = None, ps_topic_dev_score = None, ps_feedback_json = None,
      ps_created_at = c\<rparr>"

definition archive_store :: tables where
  "archive_store =
     \<lparr>users = [alice], sessions = [],
      practice_sessions =
        [example_practice 3 (Some 7) ''task1'' 10, example_practice 4 (Some 7) ''task1'' 20,
         example_practice 5 (Some 7) ''task3'' 30, example_practice 6 None ''task1'' 40],
      saved_phrases = []\<rparr>"

definition foreign_store :: tables where
  "foreign_store =
     \<lparr>users = [alice], sessions = [],
      practice_sessions = [example_practice 9 (Some 8) ''task1'' 50],
      saved_phrases = []\<rparr>"

definition example_phrase :: "uuid \<Rightarrow> uuid \<Rightarrow> bool \<Rightarrow> datetime \<Rightarrow> SavedPhrase" where
  "example_phrase i u m c =
     \<lparr>sp_id = i, sp_user_id = u, sp_phrase = ''for instance'', sp_context = ''giving an example'',
      sp_category = ''example'', sp_is_mastered = m, sp_created_at = c\<rparr>"

definition phrase_store :: tables where
  "phrase_store =
     \<lparr>users = [alice], sessions = [], practice_sessions = [],
      saved_phrases = [example_phrase 1 7 False 10, example_phrase 2 8 False 20]\<rparr>"

section \<open>Lookups in a table\<close>

lemma find_key_distinct:
  "x \<in> set xs \<Longrightarrow> distinct (map f xs) \<Longrightarrow> find (\<lambda>r. f r = f x) xs = Some x"
  by (induction xs) (auto simp: image_iff)

lemma find_None_filter:
  "distinct (map f xs) \<Longrightarrow> x \<in> set xs \<Longrightarrow>
   find (\<lambda>r. f r = f x) (filter (\<lambda>r. g r \<noteq> g x) xs) = None"
  by (induction xs) (auto simp: image_iff find_None_iff)


lemma sorted_desc_sort_key:
  fixes f :: "'a \<Rightarrow> int"
  shows "sorted_wrt (\<lambda>x y. f y \<le> f x) (sort_key (\<lambda>p. - f p) xs)"
proof -
  have "sorted (map (\<lambda>p. - f p) (sort_key (\<lambda>p. - f p) xs))"
    by (rule sorted_sort_key)
  then show ?thesis
    by (simp add: sorted_map)
qed

section \<open>Session lifecycle\<close>

text \<open>
  C1. The state machine of the specification counts a session as expired as soon as
  \<open>now \<ge> expires_at\<close>. The code tests \<open>expires_at < utcnow()\<close>: at the instant
  \<open>now = expires_at\<close> the lookup still returns the user and keeps the row. What holds:
  for every stored session whose \<open>expires_at\<close> lies strictly before \<open>now\<close>, in a store
  where session tokens are unique and the token is not empty, \<open>get_current_user\<close>
  (the delete being committed) returns \<open>None\<close> and removes exactly the rows with that
  session's id from the store, the session is no longer stored, and a second lookup of
  the same token, at any time, returns \<open>None\<close> as well.
\<close>

theorem C1_expired_session_purged:
  assumes "s \<in> set (sessions st)"
    and "distinct (map s_session_token (sessions st))"
    and "s_session_token s \<noteq> []"
    and "s_expires_at s < now"
  shows "fst (get_db (get_current_user now None (Some (s_session_token s))) st) = Inr None \<and>
         sessions (snd (get_db (get_current_user now None (Some (s_session_token s))) st))
           = filter (\<lambda>r. s_id r \<noteq> s_id s) (sessions st) \<and>
         s \<notin> set (sessions (snd (get_db (get_current_user now None (Some (s_session_token s))) st))) \<and>
         fst (get_db (get_current_user now' fault' (Some (s_session_token s)))
               (snd (get_db (get_current_user now None (Some (s_session_token s))) st))) = Inr None"
proof -
  let ?tok = "s_session_token s"
  let ?st' = "st\<lparr>sessions := filter (\<lambda>r. s_id r \<noteq> s_id s) (sessions st)\<rparr>"
  have f: "find (\<lambda>r. s_session_token r = ?tok) (sessions st) = Some s"
    using assms(1,2) by (rule find_key_distinct)
  have r: "get_db (get_current_user now None (Some ?tok)) st = (Inr None, ?st')"
    using assms(3,4) f
    by (simp add: get_db_def SessionLocal_def get_current_user_def commit_def delete_session_def)
  have n: "find (\<lambda>r. s_session_token r = ?tok) (sessions ?st') = None"
    using assms(1,2) by (simp add: find_None_filter)
  have r2: "fst (get_db (get_current_user now' fault' (Some ?tok)) ?st') = Inr None"
    using assms(3) n
    by (simp add: get_db_def SessionLocal_def get_current_user_def)
  show ?thesis unfolding r using r2 by simp
qed

theorem C1_expired_session_purged_witness:
  "alice_session \<in> set (sessions session_store) \<and>
   distinct (map s_session_token (sessions session_store)) \<and>
   s_session_token alice_session = ''tok'' \<and>
   s_expires_at alice_session < 101 \<and>
   fst (get_db (get_current_user 101 None (Some ''tok'')) session_store) = Inr None \<and>
   sessions (snd (get_db (get_current_user 101 None (Some ''tok'')) session_store)) = [] \<and>
   fst (get_db (get_current_user 50 None (Some ''tok''))
         (snd (get_db (get_current_user 101 None (Some ''tok'')) session_store))) = Inr None"
proof -
  have h1: "alice_session \<in> set (sessions session_store)"
    by (simp add: session_store_def)
  have h2: "distinct (map s_session_token (sessions session_store))"
    by (simp add: session_store_def)
  have h3: "s_session_token alice_session \<noteq> []"
    by (simp add: alice_session_def)
  have h4: "s_expires_at alice_session < 101"
    by (simp add: alice_session_def)
  have t: "s_session_token alice_session = ''tok''"
    by (simp add: alice_session_def)
  have l: "filter (\<lambda>r. s_id r \<noteq> s_id alice_session) (sessions session_store) = []"
    by (simp add: session_store_def)
  show ?thesis
    using C1_expired_session_purged [OF h1 h2 h3 h4, of 50 None] h1 h2 h4
    by (simp only: t l)
qed

theorem C1_boundary_counterexample:
  "s_expires_at alice_session \<le> 100 \<and>
   alice_session \<in> set (sessions session_store) \<and>
   get_db (get_current_user 100 None (Some (s_session_token alice_session))) session_store
     = (Inr (Some alice), session_store)"
  by (simp add: alice_def alice_session_def session_store_def get_db_def SessionLocal_def
      get_current_user_def)

text \<open>
  C9. For every stored session that is not expired (\<open>now \<le> expires_at\<close>, which
  includes every \<open>expires_at\<close> in the future) and whose \<open>user_id\<close> is the id of no
  User row, in a store where session tokens are unique and the token is not empty:
  \<open>get_current_user\<close> returns \<open>None\<close> and leaves the store as it is, the session row
  included, and \<open>verify_session\<close> answers 401 for that token.
\<close>

theorem C9_orphan_session_unauthorized:
  assumes "s \<in> set (sessions st)"
    and "distinct (map s_session_token (sessions st))"
    and "s_session_token s \<noteq> []"
    and "now \<le> s_expires_at s"
    and "\<forall>u \<in> set (users st). u_id u \<noteq> s_user_id s"
  shows "get_db (get_current_user now fault (Some (s_session_token s))) st = (Inr None, st) \<and>
         verify_session L now fault (s_session_token s) st =
           (Inl (HTTPException 401 ''Invalid or expired session''), st) \<and>
         s \<in> set (sessions (snd (verify_session L now fault (s_session_token s) st)))"
proof -
  have f: "find (\<lambda>r. s_session_token r = s_session_token s) (sessions st) = Some s"
    using assms(1,2) by (rule find_key_distinct)
  have u: "find (\<lambda>u. u_id u = s_user_id s) (users st) = None"
    using assms(5) by (simp add: find_None_iff)
  have g: "get_current_user now fault (Some (s_session_token s)) (SessionLocal st)
      = (Inr None, SessionLocal st)"
    using assms(3,4) f u by (simp add: get_current_user_def SessionLocal_def)
  show ?thesis
    using g assms(1)
    by (simp add: get_db_def verify_session_def verify_session_handler_def SessionLocal_def)
qed

theorem C9_orphan_session_unauthorized_witness:
  "alice_session \<in> set (sessions orphan_store) \<and>
   distinct (map s_session_token (sessions orphan_store)) \<and>
   s_session_token alice_session = ''tok'' \<and>
   (99 :: int) \<le> s_expires_at alice_session \<and>
   users orphan_store = [] \<and>
   get_db (get_current_user 99 None (Some ''tok'')) orphan_store = (Inr None, orphan_store) \<and>
   verify_session example_lib 99 None ''tok'' orphan_store =
     (Inl (HTTPException 401 ''Invalid or expired session''), orphan_store)"
proof -
  have h1: "alice_session \<in> set (sessions orphan_store)"
    by (simp add: orphan_store_def)
  have h2: "distinct (map s_session_token (sessions orphan_store))"
    by (simp add: orphan_store_def)
  have h3: "s_session_token alice_session \<noteq> []"
    by (simp add: alice_session_def)
  have h4: "99 \<le> s_expires_at alice_session"
    by (simp add: alice_session_def)
  have h5: "\<forall>u \<in> set (users orphan_store). u_id u \<noteq> s_user_id alice_session"
    by (simp add: orphan_store_def)
  have t: "s_session_token alice_session = ''tok''"
    by (simp add: alice_session_def)
  have e: "users orphan_store = []"
    by (simp add: orphan_store_def)
  show ?thesis
    using C9_orphan_session_unauthorized [OF h1 h2 h3 h4 h5, of None example_lib] h1 h2 h4 e
    by (simp only: t)
qed

section \<open>Login\<close>



text \<open>
  C2. A failed login does not always leave the store as it was: where the identifier
  is new, the insert of the user is committed and the insert of the session then fails,
  \<open>create_or_get_user\<close> has committed the User row in a transaction of its own, and
  the \<open>db.rollback()\<close> of the handler undoes only what is pending. What holds, for a
  login whose query for the user is answered: if the commit of the user insert raises,
  the caller gets a 500 and the store is as it was; if the commit of the session insert
  raises, the caller gets a 500, no Session row is added, and the store is as it was
  when the user existed before, and as it was but for the User row that
  \<open>create_or_get_user\<close> had committed when the identifier was new.
\<close>

theorem C2_failed_login_rollback:
  assumes "user_query env = None"
  shows "(find (\<lambda>u. u_user_identifier u = req_user_id request) (users st) = None \<and>
          user_commit env = Some msg \<longrightarrow>
            simple_login L env request st =
              (Inl (HTTPException 500 (''Login failed: '' @ msg)), st)) \<and>
         (find (\<lambda>u. u_user_identifier u = req_user_id request) (users st) = Some user \<and>
          session_commit env = Some msg \<longrightarrow>
            simple_login L env request st =
              (Inl (HTTPException 500 (''Login failed: '' @ msg)), st)) \<and>
         (find (\<lambda>u. u_user_identifier u = req_user_id request) (users st) = None \<and>
          user_commit env = None \<and> user_refresh env = None \<and>
          session_commit env = Some msg \<longrightarrow>
            simple_login L env request st =
              (Inl (HTTPException 500 (''Login failed: '' @ msg)),
               st\<lparr>users := users st @
                  [\<lparr>u_id = new_user_id env, u_user_identifier = req_user_id request\<rparr>]\<rparr>))"
  using assms
  by (simp add: simple_login_def get_db_def SessionLocal_def simple_login_handler_def
      simple_login_try_def create_or_get_user_def commit_def add_user_def add_session_def
      rollback_def)

theorem C2_failed_login_rollback_witness:
  "user_query user_commit_fails = None \<and>
   find (\<lambda>u. u_user_identifier u = req_user_id alice_request) (users empty_store) = None \<and>
   user_commit user_commit_fails = Some ''UNIQUE constraint failed: users.user_identifier'' \<and>
   simple_login example_lib user_commit_fails alice_request empty_store =
     (Inl (HTTPException 500 ''Login failed: UNIQUE constraint failed: users.user_identifier''),
      empty_store) \<and>
   user_query session_commit_fails = None \<and>
   find (\<lambda>u. u_user_identifier u = req_user_id alice_request) (users session_store)
     = Some alice \<and>
   session_commit session_commit_fails = Some ''connection lost'' \<and>
   simple_login example_lib session_commit_fails alice_request session_store =
     (Inl (HTTPException 500 ''Login failed: connection lost''), session_store) \<and>
   user_commit session_commit_fails = None \<and>
   user_refresh session_commit_fails = None \<and>
   simple_login example_lib session_commit_fails alice_request empty_store =
     (Inl (HTTPException 500 ''Login failed: connection lost''),
      empty_store\<lparr>users := [alice]\<rparr>)"
proof -
  have q1: "user_query user_commit_fails = None"
    by (simp add: user_commit_fails_def)
  have n1: "find (\<lambda>u. u_user_identifier u = req_user_id alice_request) (users empty_store) = None"
    by (simp add: empty_store_def)
  have c1: "user_commit user_commit_fails
      = Some ''UNIQUE constraint failed: users.user_identifier''"
    by (simp add: user_commit_fails_def)
  have r1: "simple_login example_lib user_commit_fails alice_request empty_store =
     (Inl (HTTPException 500 (''Login failed: '' @
        ''UNIQUE constraint failed: users.user_identifier'')), empty_store)"
    using C2_failed_login_rollback [OF q1, of alice_request empty_store
        "''UNIQUE constraint failed: users.user_identifier''" example_lib alice] n1 c1
    by blast
  have q2: "user_query session_commit_fails = None"
    by (simp add: session_commit_fails_def)
  have n2: "find (\<lambda>u. u_user_identifier u = req_user_id alice_request) (users session_store)
      = Some alice"
    by (simp add: session_store_def alice_def alice_request_def)
  have c2: "session_commit session_commit_fails = Some ''connection lost''"
    by (simp add: session_commit_fails_def)
  have r2: "simple_login example_lib session_commit_fails alice_request session_store =
     (Inl (HTTPException 500 (''Login failed: '' @ ''connection lost'')), session_store)"
    using C2_failed_login_rollback [OF q2, of alice_request session_store
        "''connection lost''" example_lib alice] n2 c2
    by blast
  have c3: "user_commit session_commit_fails = None"
    and f3: "user_refresh session_commit_fails = None"
    by (simp_all add: session_commit_fails_def)
  have u3: "users empty_store @
      [\<lparr>u_id = new_user_id session_commit_fails,
        u_user_identifier = req_user_id alice_request\<rparr>] = [alice]"
    by (simp add: empty_store_def session_commit_fails_def alice_request_def alice_def)
  have r3: "simple_login example_lib session_commit_fails alice_request empty_store =
     (Inl (HTTPException 500 (''Login failed: '' @ ''connection lost'')),
      empty_store\<lparr>users := [alice]\<rparr>)"
    using C2_failed_login_rollback [OF q2, of alice_request empty_store
        "''connection lost''" example_lib alice] n1 c3 f3 c2
    unfolding u3 by blast
  show ?thesis
    using q1 n1 c1 r1 q2 n2 c2 r2 c3 f3 r3 by simp
qed

theorem C2_partial_state_counterexample:
  "user_commit session_commit_fails = None \<and>
   session_commit session_commit_fails = Some ''connection lost'' \<and>
   users empty_store = [] \<and>
   fst (simple_login example_lib session_commit_fails alice_request empty_store)
     = Inl (HTTPException 500 ''Login failed: connection lost'') \<and>
   users (snd (simple_login example_lib session_commit_fails alice_request empty_store)) = [alice] \<and>
   sessions (snd (simple_login example_lib session_commit_fails alice_request empty_store)) = []"
  by (simp add: session_commit_fails_def alice_request_def empty_store_def alice_def
      simple_login_def get_db_def SessionLocal_def simple_login_handler_def
      simple_login_try_def create_or_get_user_def commit_def add_user_def add_session_def
      rollback_def)

text \<open>
  C3. The body of the 500 of \<open>simple_login\<close> is \<open>"Login failed: "\<close> followed by
  \<open>str(e)\<close>, the text of the exception the store raised: here the violated constraint,
  with its table and column, reaches the caller. The archive handlers answer with a
  fixed text instead.
\<close>

theorem C3_login_error_detail:
  "fst (simple_login example_lib user_commit_fails alice_request empty_store)
     = Inl (HTTPException 500 (''Login failed: '' @ ''UNIQUE constraint failed: users.user_identifier'')) \<and>
   fst (get_task1_questions example_lib (Some ''UNIQUE constraint failed: users.user_identifier'')
          ''alice'' 50 0 empty_store)
     = Inl (HTTPException 500 ''Failed to fetch Task1 questions'')"
  by (simp add: user_commit_fails_def alice_request_def empty_store_def
      simple_login_def get_db_def SessionLocal_def simple_login_handler_def
      simple_login_try_def create_or_get_user_def commit_def add_user_def add_session_def
      rollback_def
      get_task1_questions_def get_task1_questions_handler_def get_task1_questions_try_def)

section \<open>Archive of Task1 questions\<close>

text \<open>
  C5. The declared range of \<open>offset\<close> has no upper end, and the store refuses an
  offset beyond its largest integer: there the call has no total, it fails with the 500.
  What holds: for every known user and every two windows \<open>(limit, offset)\<close> and
  \<open>(limit', offset')\<close> with the limits in \<open>[1, 100]\<close> and the offsets from 0 up to the
  store's largest integer, \<open>get_task1_questions\<close> succeeds on both, writes nothing, and
  returns the same \<open>total\<close>: the number of all PracticeSessions with the id of that
  user and the task type \<open>task1\<close>.
\<close>

theorem C5_total_independent_of_window:
  assumes "find (\<lambda>u. u_user_identifier u = user_id) (users st) = Some user"
    and "1 \<le> limit" and "limit \<le> 100" and "0 \<le> offset" and "offset \<le> store_int_max"
    and "1 \<le> limit'" and "limit' \<le> 100" and "0 \<le> offset'" and "offset' \<le> store_int_max"
  shows "\<exists>r r'. get_task1_questions L None user_id limit offset st = (Inr r, st) \<and>
           get_task1_questions L None user_id limit' offset' st = (Inr r', st) \<and>
           ar_total r = int (length (filter
             (\<lambda>p. ps_user_id p = Some (u_id user) \<and> ps_task_type p = ''task1'')
             (practice_sessions st))) \<and>
           ar_total r' = ar_total r"
  using assms
  by (simp add: get_task1_questions_def get_db_def SessionLocal_def
      get_task1_questions_handler_def get_task1_questions_try_def task1_query_def)

theorem C5_total_independent_of_window_witness:
  "find (\<lambda>u. u_user_identifier u = ''alice'') (users archive_store) = Some alice \<and>
   (1 :: int) \<le> store_int_max \<and>
   ar_total (projr (fst (get_task1_questions example_lib None ''alice'' 50 0 archive_store))) = 2 \<and>
   ar_total (projr (fst (get_task1_questions example_lib None ''alice'' 1 1 archive_store))) = 2 \<and>
   length (ar_questions
     (projr (fst (get_task1_questions example_lib None ''alice'' 50 0 archive_store)))) = 2 \<and>
   length (ar_questions
     (projr (fst (get_task1_questions example_lib None ''alice'' 1 1 archive_store)))) = 1"
proof -
  have h: "find (\<lambda>u. u_user_identifier u = ''alice'') (users archive_store) = Some alice"
    by (simp add: archive_store_def alice_def)
  have b0: "(0 :: int) \<le> store_int_max" and b1: "(1 :: int) \<le> store_int_max"
    by (simp_all add: store_int_max_def)
  have n: "int (length (filter
             (\<lambda>p. ps_user_id p = Some (u_id alice) \<and> ps_task_type p = ''task1'')
             (practice_sessions archive_store))) = 2"
    by (simp add: archive_store_def alice_def example_practice_def)
  have "\<exists>r r'. get_task1_questions example_lib None ''alice'' 50 0 archive_store
            = (Inr r, archive_store) \<and>
           get_task1_questions example_lib None ''alice'' 1 1 archive_store
            = (Inr r', archive_store) \<and>
           ar_total r = 2 \<and> ar_total r' = ar_total r"
    using C5_total_independent_of_window [OF h _ _ _ b0 _ _ _ b1, of 50 1 example_lib]
    unfolding n by simp
  then obtain r r' where
    r: "get_task1_questions example_lib None ''alice'' 50 0 archive_store = (Inr r, archive_store)"
    and r': "get_task1_questions example_lib None ''alice'' 1 1 archive_store = (Inr r', archive_store)"
    and t: "ar_total r = 2" "ar_total r' = ar_total r"
    by auto
  have l: "length (ar_questions
     (projr (fst (get_task1_questions example_lib None ''alice'' 50 0 archive_store)))) = 2"
    by (simp add: archive_store_def alice_def example_practice_def store_int_max_def
        get_task1_questions_def get_db_def SessionLocal_def
        get_task1_questions_handler_def get_task1_questions_try_def task1_query_def
        to_response_def)
  have l': "length (ar_questions
     (projr (fst (get_task1_questions example_lib None ''alice'' 1 1 archive_store)))) = 1"
    by (simp add: archive_store_def alice_def example_practice_def store_int_max_def
        get_task1_questions_def get_db_def SessionLocal_def
        get_task1_questions_handler_def get_task1_questions_try_def task1_query_def
        to_response_def)
  show ?thesis
    using h b1 t l l' by (simp add: r r')
qed

theorem C5_offset_counterexample:
  "find (\<lambda>u. u_user_identifier u = ''alice'') (users archive_store) = Some alice \<and>
   (1 :: int) \<le> 50 \<and> (50 :: int) \<le> 100 \<and> (0 :: int) \<le> 9223372036854775808 \<and>
   fst (get_task1_questions example_lib None ''alice'' 50 9223372036854775808 archive_store)
     = Inl (HTTPException 500 ''Failed to fetch Task1 questions'') \<and>
   fst (get_task1_questions example_lib None ''alice'' 50 0 archive_store)
     \<noteq> Inl (HTTPException 500 ''Failed to fetch Task1 questions'') \<and>
   ar_total (projr (fst (get_task1_questions example_lib None ''alice'' 50 0 archive_store))) = 2"
  by (simp add: archive_store_def alice_def example_practice_def store_int_max_def
      get_task1_questions_def get_db_def SessionLocal_def
      get_task1_questions_handler_def get_task1_questions_try_def task1_query_def
      to_response_def)

text \<open>
  C6. \<open>get_task1_question\<close>: an id that \<open>UUID\<close> does not parse gives 400, whoever the
  user is and whatever the store holds or does (the check comes before the user is looked
  up); an id that parses, for a user that is found and has no PracticeSession with that
  id and the task type \<open>task1\<close>, gives 404; and the two failures differ.
\<close>

theorem C6_malformed_before_not_found:
  "(UUID L question_id = None \<longrightarrow>
      get_task1_question L fault question_id user_id st =
        (Inl (HTTPException 400 ''Invalid question ID format''), st)) \<and>
   (UUID L question_id = Some q \<and>
    find (\<lambda>u. u_user_identifier u = user_id) (users st) = Some user \<and>
    (\<forall>p \<in> set (practice_sessions st).
       \<not> (ps_id p = q \<and> ps_user_id p = Some (u_id user) \<and> ps_task_type p = ''task1'')) \<longrightarrow>
      get_task1_question L None question_id user_id st =
        (Inl (HTTPException 404 ''Task1 question not found''), st)) \<and>
   HTTPException 400 ''Invalid question ID format'' \<noteq> HTTPException 404 ''Task1 question not found''"
proof (intro conjI impI)
  assume "UUID L question_id = None"
  then show "get_task1_question L fault question_id user_id st =
        (Inl (HTTPException 400 ''Invalid question ID format''), st)"
    by (simp add: get_task1_question_def get_db_def SessionLocal_def
        get_task1_question_handler_def get_task1_question_try_def)
next
  assume a: "UUID L question_id = Some q \<and>
    find (\<lambda>u. u_user_identifier u = user_id) (users st) = Some user \<and>
    (\<forall>p \<in> set (practice_sessions st).
       \<not> (ps_id p = q \<and> ps_user_id p = Some (u_id user) \<and> ps_task_type p = ''task1''))"
  then have "find (\<lambda>p. ps_id p = q \<and> ps_user_id p = Some (u_id user) \<and> ps_task_type p = ''task1'')
      (practice_sessions st) = None"
    by (simp add: find_None_iff)
  with a show "get_task1_question L None question_id user_id st =
        (Inl (HTTPException 404 ''Task1 question not found''), st)"
    by (simp add: get_task1_question_def get_db_def SessionLocal_def
        get_task1_question_handler_def get_task1_question_try_def)
qed simp

theorem C6_malformed_before_not_found_witness:
  "UUID example_lib ''not-a-uuid'' = None \<and>
   find (\<lambda>u. u_user_identifier u = ''nobody'') (users archive_store) = None \<and>
   get_task1_question example_lib None ''not-a-uuid'' ''nobody'' archive_store
     = (Inl (HTTPException 400 ''Invalid question ID format''), archive_store) \<and>
   UUID example_lib ''00000000-0000-0000-0000-000000000009'' = Some 9 \<and>
   find (\<lambda>u. u_user_identifier u = ''alice'') (users archive_store) = Some alice \<and>
   get_task1_question example_lib None ''00000000-0000-0000-0000-000000000009'' ''alice''
       archive_store
     = (Inl (HTTPException 404 ''Task1 question not found''), archive_store)"
proof -
  have m: "UUID example_lib ''not-a-uuid'' = None"
    by (simp add: example_lib_def)
  have nb: "find (\<lambda>u. u_user_identifier u = ''nobody'') (users archive_store) = None"
    by (simp add: archive_store_def alice_def)
  have w: "UUID example_lib ''00000000-0000-0000-0000-000000000009'' = Some 9"
    by (simp add: example_lib_def)
  have u: "find (\<lambda>u. u_user_identifier u = ''alice'') (users archive_store) = Some alice"
    by (simp add: archive_store_def alice_def)
  have a: "\<forall>p \<in> set (practice_sessions archive_store).
       \<not> (ps_id p = 9 \<and> ps_user_id p = Some (u_id alice) \<and> ps_task_type p = ''task1'')"
    by (simp add: archive_store_def alice_def example_practice_def)
  have r1: "get_task1_question example_lib None ''not-a-uuid'' ''nobody'' archive_store
     = (Inl (HTTPException 400 ''Invalid question ID format''), archive_store)"
    using C6_malformed_before_not_found
      [of example_lib "''not-a-uuid''" None "''nobody''" archive_store 0 alice] m
    by blast
  have r2: "get_task1_question example_lib None ''00000000-0000-0000-0000-000000000009'' ''alice''
       archive_store
     = (Inl (HTTPException 404 ''Task1 question not found''), archive_store)"
    using C6_malformed_before_not_found
      [of example_lib "''00000000-0000-0000-0000-000000000009''" None "''alice''"
          archive_store 9 alice] w u a
    by blast
  show ?thesis
    using m nb r1 w u r2 by (intro conjI)
qed

text \<open>
  C7. For a well-formed question id and a user that is found, the answer of
  \<open>get_task1_question\<close> on a store that holds no PracticeSession with that id is the
  answer on a store where the id exists but every PracticeSession with it belongs to
  another user (or to none) or has another task type: the same 404.
\<close>

theorem C7_absence_and_mismatch_indistinguishable:
  assumes "UUID L question_id = Some q"
    and "find (\<lambda>u. u_user_identifier u = user_id) (users st1) = Some user"
    and "find (\<lambda>u. u_user_identifier u = user_id) (users st2) = Some user"
    and "\<forall>p \<in> set (practice_sessions st1). ps_id p \<noteq> q"
    and "p2 \<in> set (practice_sessions st2)" and "ps_id p2 = q"
    and "\<forall>p \<in> set (practice_sessions st2).
           ps_id p = q \<longrightarrow> ps_user_id p \<noteq> Some (u_id user) \<or> ps_task_type p \<noteq> ''task1''"
  shows "fst (get_task1_question L fault question_id user_id st1) =
         fst (get_task1_question L fault question_id user_id st2) \<and>
         fst (get_task1_question L None question_id user_id st2) =
           Inl (HTTPException 404 ''Task1 question not found'')"
proof -
  let ?P = "\<lambda>p. ps_id p = q \<and> ps_user_id p = Some (u_id user) \<and> ps_task_type p = ''task1''"
  have n1: "find ?P (practice_sessions st1) = None"
    using assms(4) by (auto simp: find_None_iff)
  have n2: "find ?P (practice_sessions st2) = None"
    using assms(7) by (auto simp: find_None_iff)
  show ?thesis
    using assms(1,2,3) n1 n2
    by (simp add: get_task1_question_def get_db_def SessionLocal_def
        get_task1_question_handler_def get_task1_question_try_def split: option.splits)
qed

theorem C7_absence_and_mismatch_indistinguishable_witness:
  "UUID example_lib ''00000000-0000-0000-0000-000000000009'' = Some 9 \<and>
   example_practice 9 (Some 8) ''task1'' 50 \<in> set (practice_sessions foreign_store) \<and>
   fst (get_task1_question example_lib None ''00000000-0000-0000-0000-000000000009'' ''alice''
          archive_store) =
   fst (get_task1_question example_lib None ''00000000-0000-0000-0000-000000000009'' ''alice''
          foreign_store) \<and>
   fst (get_task1_question example_lib None ''00000000-0000-0000-0000-000000000009'' ''alice''
          foreign_store) = Inl (HTTPException 404 ''Task1 question not found'')"
proof -
  have w: "UUID example_lib ''00000000-0000-0000-0000-000000000009'' = Some 9"
    by (simp add: example_lib_def)
  have u1: "find (\<lambda>u. u_user_identifier u = ''alice'') (users archive_store) = Some alice"
    by (simp add: archive_store_def alice_def)
  have u2: "find (\<lambda>u. u_user_identifier u = ''alice'') (users foreign_store) = Some alice"
    by (simp add: foreign_store_def alice_def)
  have a: "\<forall>p \<in> set (practice_sessions archive_store). ps_id p \<noteq> 9"
    by (simp add: archive_store_def example_practice_def)
  have m: "example_practice 9 (Some 8) ''task1'' 50 \<in> set (practice_sessions foreign_store)"
    by (simp add: foreign_store_def)
  have i: "ps_id (example_practice 9 (Some 8) ''task1'' 50) = 9"
    by (simp add: example_practice_def)
  have f: "\<forall>p \<in> set (practice_sessions foreign_store).
           ps_id p = 9 \<longrightarrow> ps_user_id p \<noteq> Some (u_id alice) \<or> ps_task_type p \<noteq> ''task1''"
    by (simp add: foreign_store_def alice_def example_practice_def)
  show ?thesis
    using C7_absence_and_mismatch_indistinguishable [OF w u1 u2 a m i f, of None] w m
    by (intro conjI) simp_all
qed

section \<open>Saved phrases\<close>

text \<open>
  C8. With its commit accepted \<open>save_phrase\<close> returns; and whenever it returns a
  phrase for user \<open>a\<close>, that phrase has the generated id and \<open>created_at\<close>, the given
  texts and \<open>is_mastered = False\<close>, it is stored, it is in the list of \<open>a\<close> and in the
  list of no other user; and \<open>get_user_phrases\<close> returns, for every user, exactly the
  stored phrases of that user (each as often as it is stored), ordered by \<open>created_at\<close>
  descending.
\<close>

theorem C8_save_then_list:
  "(\<exists>p d'. save_phrase new_id created_at None d a phr ctx cat = (Inr p, d')) \<and>
   (\<forall>p d'. save_phrase new_id created_at fault d a phr ctx cat = (Inr p, d') \<longrightarrow>
      p = \<lparr>sp_id = new_id, sp_user_id = a, sp_phrase = phr, sp_context = ctx,
            sp_category = cat, sp_is_mastered = False, sp_created_at = created_at\<rparr> \<and>
      p \<in> set (saved_phrases (store d')) \<and>
      p \<in> set (get_user_phrases d' a) \<and>
      (\<forall>b. b \<noteq> a \<longrightarrow> p \<notin> set (get_user_phrases d' b)) \<and>
      (\<forall>u. mset (get_user_phrases d' u) =
             filter_mset (\<lambda>x. sp_user_id x = u) (mset (saved_phrases (txn d'))) \<and>
           sorted_wrt (\<lambda>x y. sp_created_at y \<le> sp_created_at x) (get_user_phrases d' u)))"
proof (intro conjI allI impI)
  show "\<exists>p d'. save_phrase new_id created_at None d a phr ctx cat = (Inr p, d')"
    by (simp add: save_phrase_def commit_def)
next
  fix p d'
  assume s: "save_phrase new_id created_at fault d a phr ctx cat = (Inr p, d')"
  let ?p = "\<lparr>sp_id = new_id, sp_user_id = a, sp_phrase = phr, sp_context = ctx,
            sp_category = cat, sp_is_mastered = False, sp_created_at = created_at\<rparr>"
  from s have p: "p = ?p"
    and d': "d' = (add_phrase ?p d)\<lparr>store := txn (add_phrase ?p d)\<rparr>"
    by (auto simp: save_phrase_def commit_def split: option.splits)
  show "p = ?p" by (rule p)
  show "p \<in> set (saved_phrases (store d'))"
    by (simp add: p d' add_phrase_def)
  show "p \<in> set (get_user_phrases d' a)"
    by (simp add: p d' add_phrase_def get_user_phrases_def)
  show "p \<notin> set (get_user_phrases d' b)" if "b \<noteq> a" for b
    using that by (auto simp: p get_user_phrases_def)
  show "mset (get_user_phrases d' u) =
      filter_mset (\<lambda>x. sp_user_id x = u) (mset (saved_phrases (txn d')))" for u
    by (simp add: get_user_phrases_def)
  show "sorted_wrt (\<lambda>x y. sp_created_at y \<le> sp_created_at x) (get_user_phrases d' u)" for u
    unfolding get_user_phrases_def by (rule sorted_desc_sort_key)
qed

theorem C8_save_then_list_witness:
  "fst (save_phrase 3 30 None (SessionLocal phrase_store) 7 ''to sum up'' ''closing'' ''conclusion'')
     = Inr \<lparr>sp_id = 3, sp_user_id = 7, sp_phrase = ''to sum up'', sp_context = ''closing'',
            sp_category = ''conclusion'', sp_is_mastered = False, sp_created_at = 30\<rparr> \<and>
   get_user_phrases
     (snd (save_phrase 3 30 None (SessionLocal phrase_store) 7 ''to sum up'' ''closing'' ''conclusion'')) 7
     = [\<lparr>sp_id = 3, sp_user_id = 7, sp_phrase = ''to sum up'', sp_context = ''closing'',
          sp_category = ''conclusion'', sp_is_mastered = False, sp_created_at = 30\<rparr>,
        example_phrase 1 7 False 10] \<and>
   get_user_phrases
     (snd (save_phrase 3 30 None (SessionLocal phrase_store) 7 ''to sum up'' ''closing'' ''conclusion'')) 8
     = [example_phrase 2 8 False 20] \<and>
   \<lparr>sp_id = 3, sp_user_id = 7, sp_phrase = ''to sum up'', sp_context = ''closing'',
     sp_category = ''conclusion'', sp_is_mastered = False, sp_created_at = 30\<rparr>
     \<notin> set (get_user_phrases
         (snd (save_phrase 3 30 None (SessionLocal phrase_store) 7 ''to sum up'' ''closing''
                 ''conclusion'')) 8)"
proof -
  let ?r = "save_phrase 3 30 None (SessionLocal phrase_store) 7 ''to sum up'' ''closing'' ''conclusion''"
  let ?p = "\<lparr>sp_id = 3, sp_user_id = 7, sp_phrase = ''to sum up'', sp_context = ''closing'',
            sp_category = ''conclusion'', sp_is_mastered = False, sp_created_at = 30\<rparr>"
  have h: "?r = (Inr ?p, snd ?r)"
    by (simp add: save_phrase_def commit_def)
  have ne: "(8 :: nat) \<noteq> 7"
    by simp
  have n: "?p \<notin> set (get_user_phrases (snd ?r) 8)"
    using C8_save_then_list
      [of 3 30 "SessionLocal phrase_store" 7 "''to sum up''" "''closing''" "''conclusion''" None] h ne
    by blast
  have a: "get_user_phrases (snd ?r) 7 = [?p, example_phrase 1 7 False 10]"
    by (simp add: phrase_store_def example_phrase_def SessionLocal_def save_phrase_def
        commit_def add_phrase_def get_user_phrases_def)
  have b: "get_user_phrases (snd ?r) 8 = [example_phrase 2 8 False 20]"
    by (simp add: phrase_store_def example_phrase_def SessionLocal_def save_phrase_def
        commit_def add_phrase_def get_user_phrases_def)
  have f: "fst ?r = Inr ?p"
    by (simp add: save_phrase_def commit_def)
  show ?thesis
    using f a b n by (intro conjI)
qed

lemma update_mastered_status_store:
  assumes "get_phrase (SessionLocal st) phrase_id = Some p0"
  shows "update_mastered_status fault (SessionLocal st) phrase_id b =
     (case fault of
        None \<Rightarrow>
          (Inr (Some (p0\<lparr>sp_is_mastered := b\<rparr>)),
           SessionLocal (st\<lparr>saved_phrases :=
             map (\<lambda>r. if sp_id r = phrase_id then r\<lparr>sp_is_mastered := b\<rparr> else r)
               (saved_phrases st)\<rparr>))
      | Some msg \<Rightarrow>
          (Inl (Exception msg),
           \<lparr>store = st,
            txn = st\<lparr>saved_phrases :=
              map (\<lambda>r. if sp_id r = phrase_id then r\<lparr>sp_is_mastered := b\<rparr> else r)
                (saved_phrases st)\<rparr>\<rparr>))"
proof -
  have "sp_id p0 = phrase_id"
    using assms by (auto simp: get_phrase_def find_Some_iff)
  then show ?thesis
    using assms
    by (simp add: update_mastered_status_def commit_def set_is_mastered_def SessionLocal_def
        split: option.splits)
qed

text \<open>
  C10. For every existing phrase id and every boolean, after \<open>update_mastered_status\<close>
  the users, sessions and practice sessions are the stored ones, the table of saved
  phrases has the same rows in the same places, each with its id, owner, phrase,
  context, category and \<open>created_at\<close> unchanged, and every row with another id is
  unchanged altogether; with the commit accepted the rows with the given id have the
  new \<open>is_mastered\<close>, and the updated phrase is returned.
\<close>

theorem C10_update_mastered_frame:
  assumes "get_phrase (SessionLocal st) phrase_id = Some p0"
    and "st' = store (snd (update_mastered_status fault (SessionLocal st) phrase_id b))"
  shows "users st' = users st \<and> sessions st' = sessions st \<and>
         practice_sessions st' = practice_sessions st \<and>
         length (saved_phrases st') = length (saved_phrases st) \<and>
         (\<forall>i < length (saved_phrases st).
            sp_id (saved_phrases st' ! i) = sp_id (saved_phrases st ! i) \<and>
            sp_user_id (saved_phrases st' ! i) = sp_user_id (saved_phrases st ! i) \<and>
            sp_phrase (saved_phrases st' ! i) = sp_phrase (saved_phrases st ! i) \<and>
            sp_context (saved_phrases st' ! i) = sp_context (saved_phrases st ! i) \<and>
            sp_category (saved_phrases st' ! i) = sp_category (saved_phrases st ! i) \<and>
            sp_created_at (saved_phrases st' ! i) = sp_created_at (saved_phrases st ! i) \<and>
            (sp_id (saved_phrases st ! i) \<noteq> phrase_id \<longrightarrow>
               saved_phrases st' ! i = saved_phrases st ! i) \<and>
            (sp_id (saved_phrases st ! i) = phrase_id \<and> fault = None \<longrightarrow>
               sp_is_mastered (saved_phrases st' ! i) = b)) \<and>
         (fault = None \<longrightarrow>
            fst (update_mastered_status fault (SessionLocal st) phrase_id b)
              = Inr (Some (p0\<lparr>sp_is_mastered := b\<rparr>)) \<and>
            sp_id p0 = phrase_id \<and> p0 \<in> set (saved_phrases st))"
proof -
  have m: "sp_id p0 = phrase_id \<and> p0 \<in> set (saved_phrases st)"
    using assms(1) by (auto simp: get_phrase_def SessionLocal_def find_Some_iff)
  show ?thesis
    unfolding assms(2) update_mastered_status_store [OF assms(1)]
    using m by (cases fault) (simp_all add: SessionLocal_def)
qed

theorem C10_update_mastered_frame_witness:
  "get_phrase (SessionLocal phrase_store) 1 = Some (example_phrase 1 7 False 10) \<and>
   saved_phrases (store (snd (update_mastered_status None (SessionLocal phrase_store) 1 True)))
     = [example_phrase 1 7 True 10, example_phrase 2 8 False 20] \<and>
   users (store (snd (update_mastered_status None (SessionLocal phrase_store) 1 True))) = [alice] \<and>
   fst (update_mastered_status None (SessionLocal phrase_store) 1 True)
     = Inr (Some (example_phrase 1 7 True 10))"
proof -
  let ?st' = "store (snd (update_mastered_status None (SessionLocal phrase_store) 1 True))"
  have h: "get_phrase (SessionLocal phrase_store) 1 = Some (example_phrase 1 7 False 10)"
    by (simp add: phrase_store_def example_phrase_def SessionLocal_def get_phrase_def)
  note c = C10_update_mastered_frame [OF h refl, of None True]
  have u: "users ?st' = [alice]"
    using c by (simp add: phrase_store_def)
  have r: "fst (update_mastered_status None (SessionLocal phrase_store) 1 True)
     = Inr (Some (example_phrase 1 7 True 10))"
    using c by (simp add: example_phrase_def)
  have l: "saved_phrases ?st' = [example_phrase 1 7 True 10, example_phrase 2 8 False 20]"
    by (simp add: phrase_store_def example_phrase_def SessionLocal_def get_phrase_def
        update_mastered_status_def commit_def set_is_mastered_def)
  show ?thesis
    using h l u r by (intro conjI)
qed

end
